theory Spec2Isabelle
  imports Main
begin

section \<open>Python values, exceptions and strings\<close>

text \<open>
  A shallow embedding of \<^verbatim>\<open>src/downloader.py\<close>. Python strings are lists of
  characters; every \<^typ>\<open>char\<close> stands for one code point below 256. The values that the
  metadata dictionary of the extraction library may hold are restricted to \<^verbatim>\<open>None\<close>,
  integers and strings (floats and containers are outside the model).
\<close>

datatype pyval = PNone | PInt int | PStr string

text \<open>An exception is its class name and the text \<^verbatim>\<open>str(e)\<close>. Only subclasses of
  \<^verbatim>\<open>Exception\<close> are modelled, the ones \<^verbatim>\<open>except Exception\<close> catches.\<close>

datatype exn = Exn (exn_class: string) (exn_msg: string)

definition sq :: string where
  "sq = [CHR 0x27]"

definition digit_char :: "nat \<Rightarrow> char" where
  "digit_char d = char_of (48 + d)"

fun str_nat :: "nat \<Rightarrow> string" where
  "str_nat n = (if n < 10 then [digit_char n] else str_nat (n div 10) @ [digit_char (n mod 10)])"

declare str_nat.simps [simp del]

text \<open>\<^verbatim>\<open>str(i)\<close> for an integer.\<close>

definition str_int :: "int \<Rightarrow> string" where
  "str_int i = (if i < 0 then CHR ''-'' # str_nat (nat (- i)) else str_nat (nat i))"

text \<open>The format specification \<^verbatim>\<open>:02d\<close>: zero padding to width two, the sign counted.\<close>

definition format_02d :: "int \<Rightarrow> string" where
  "format_02d i =
     (if i < 0 then CHR ''-'' # str_nat (nat (- i))
      else replicate (2 - length (str_nat (nat i))) CHR ''0'' @ str_nat (nat i))"

text \<open>What an f-string writes for a value: \<^verbatim>\<open>format(v, '')\<close>.\<close>

fun str_pyval :: "pyval \<Rightarrow> string" where
  "str_pyval PNone = ''None''"
| "str_pyval (PInt i) = str_int i"
| "str_pyval (PStr s) = s"

text \<open>Truth value of an object, as \<^verbatim>\<open>if v:\<close> tests it.\<close>

fun truthy :: "pyval \<Rightarrow> bool" where
  "truthy PNone = False"
| "truthy (PInt i) = (i \<noteq> 0)"
| "truthy (PStr s) = (s \<noteq> [])"

text \<open>\<^verbatim>\<open>s.rstrip(c)\<close> for a one-character argument: all trailing copies of \<open>c\<close> go.\<close>

definition rstrip :: "char \<Rightarrow> string \<Rightarrow> string" where
  "rstrip c s = rev (dropWhile (\<lambda>x. x = c) (rev s))"

text \<open>\<^verbatim>\<open>str.isspace\<close> on one code point below 256: TAB, LF, VT, FF, CR, the separators
  0x1C to 0x1F, the space, NEL (0x85) and the no-break space (0xA0).\<close>

definition isspace :: "char \<Rightarrow> bool" where
  "isspace c =
     (let n = (of_char c :: nat)
      in (9 \<le> n \<and> n \<le> 13) \<or> (28 \<le> n \<and> n \<le> 32) \<or> n = 133 \<or> n = 160)"

text \<open>\<^verbatim>\<open>s.strip()\<close>: leading and trailing whitespace removed.\<close>

definition strip :: "string \<Rightarrow> string" where
  "strip s = rev (dropWhile isspace (rev (dropWhile isspace s)))"

text \<open>\<^verbatim>\<open>s.startswith('#')\<close>.\<close>

fun startswith_hash :: "string \<Rightarrow> bool" where
  "startswith_hash [] = False"
| "startswith_hash (c # cs) = (c = CHR ''#'')"

section \<open>The outside world\<close>

text \<open>
  The options dictionary handed to the extraction library, one field per key.
\<close>

record ydl_options =
  outtmpl :: string
  ignoreerrors :: bool
  no_warnings :: bool
  extractaudio :: bool
  audioformat :: "string option"
  format :: string

text \<open>
  Everything outside the program is a parameter: the file system (\<open>mkdir\<close>, reading a
  text file as the list of lines that iterating over it gives, each with its line
  terminator), \<^verbatim>\<open>pathlib\<close> (\<open>joinpath\<close> is \<^verbatim>\<open>str(Path(a) / b)\<close>, \<open>absolute\<close> is
  \<^verbatim>\<open>Path(a).absolute()\<close> as text) and the extraction library: \<open>extract_info\<close> is
  \<^verbatim>\<open>ydl.extract_info(url, download=False)\<close>, which raises, returns \<^verbatim>\<open>None\<close> or returns a
  dictionary, and \<open>download\<close> is \<^verbatim>\<open>ydl.download([url])\<close>. Every operation reads and
  changes a world \<open>'w\<close>.
\<close>

record 'w env =
  mkdir :: "string \<Rightarrow> 'w \<Rightarrow> (exn + unit) \<times> 'w"
  read_lines :: "string \<Rightarrow> 'w \<Rightarrow> (exn + string list) \<times> 'w"
  joinpath :: "string \<Rightarrow> string \<Rightarrow> string"
  absolute :: "string \<Rightarrow> string"
  extract_info :: "ydl_options \<Rightarrow> string \<Rightarrow> 'w \<Rightarrow> (exn + (string \<rightharpoonup> pyval) option) \<times> 'w"
  download :: "ydl_options \<Rightarrow> string \<Rightarrow> 'w \<Rightarrow> (exn + unit) \<times> 'w"

text \<open>The calls made to the extraction library, in order.\<close>

datatype call = Probe string | Fetch string

text \<open>The program state: the world, the lines printed so far (one entry per call of
  \<^verbatim>\<open>print\<close>) and the log of calls to the library.\<close>

record 'w state =
  world :: 'w
  stdout :: "string list"
  calls :: "call list"

definition print :: "string \<Rightarrow> 'w state \<Rightarrow> 'w state" where
  "print line s = s\<lparr>stdout := stdout s @ [line]\<rparr>"

section \<open>The downloader\<close>

record downloader =
  download_path :: string
  ydl_opts :: ydl_options

text \<open>\<^verbatim>\<open>YouTubeDownloader.__init__\<close>: the directory is created first (a failure there leaves
  the constructor), then the options are built. The test \<^verbatim>\<open>if format_selector:\<close> fails
  on \<^verbatim>\<open>None\<close> and on the empty string alike.\<close>

definition init ::
  "'w env \<Rightarrow> string \<Rightarrow> bool \<Rightarrow> string \<Rightarrow> string option \<Rightarrow> 'w \<Rightarrow> (exn + downloader) \<times> 'w" where
  "init E path audio_only quality format_selector w =
     (case mkdir E path w of
        (Inl e, w') \<Rightarrow> (Inl e, w')
      | (Inr _, w') \<Rightarrow>
          (Inr \<lparr>download_path = path,
                ydl_opts = \<lparr>
                  outtmpl = joinpath E path ''%(title)s.%(ext)s'',
                  ignoreerrors = True,
                  no_warnings = False,
                  extractaudio = audio_only,
                  audioformat = (if audio_only then Some ''mp3'' else None),
                  format =
                    (case (if format_selector = Some [] then None else format_selector) of
                       Some f \<Rightarrow> f
                     | None \<Rightarrow>
                         if audio_only then ''bestaudio/best''
                         else if quality = ''best'' then
                           ''bestvideo[ext=mp4]+bestaudio[ext=m4a]/best[ext=mp4]/best''
                         else if quality = ''worst'' then ''worst[ext=mp4]/worst''
                         else ''best[height<='' @ rstrip CHR ''p'' quality
                                @ ''][ext=mp4]/best[height<='' @ rstrip CHR ''p'' quality @ '']'')\<rparr>\<rparr>,
           w'))"

text \<open>The result dictionary of one URL, one field per key.\<close>

record download_result =
  url :: string
  title :: pyval
  status :: string
  duration :: pyval
  error :: "string option"

text \<open>
  The body of the \<^verbatim>\<open>try\<close> block of \<^verbatim>\<open>download_single_video\<close>. \<open>Inl\<close> is an exception
  leaving the block: one raised by the library, the \<^verbatim>\<open>AttributeError\<close> of \<^verbatim>\<open>info.get\<close>
  when the library returned \<^verbatim>\<open>None\<close>, or the \<^verbatim>\<open>TypeError\<close> of \<^verbatim>\<open>duration // 60\<close> on a
  non-empty string.
\<close>

definition try_download ::
  "'w env \<Rightarrow> downloader \<Rightarrow> string \<Rightarrow> 'w state \<Rightarrow> (exn + download_result) \<times> 'w state" where
  "try_download E self u s =
     (let s0 = s\<lparr>calls := calls s @ [Probe u]\<rparr> in
      case extract_info E (ydl_opts self) u (world s0) of
        (Inl e, w1) \<Rightarrow> (Inl e, s0\<lparr>world := w1\<rparr>)
      | (Inr None, w1) \<Rightarrow>
          (Inl (Exn ''AttributeError'' (sq @ ''NoneType'' @ sq @ '' object has no attribute ''
                  @ sq @ ''get'' @ sq)),
           s0\<lparr>world := w1\<rparr>)
      | (Inr (Some info), w1) \<Rightarrow>
          (let t = (case info ''title'' of None \<Rightarrow> PStr ''Unknown'' | Some v \<Rightarrow> v);
               d = (case info ''duration'' of None \<Rightarrow> PInt 0 | Some v \<Rightarrow> v);
               s1 = print (''Downloading: '' @ str_pyval t) (s0\<lparr>world := w1\<rparr>)
           in case (if truthy d then
                      (case d of
                         PInt i \<Rightarrow>
                           Inr (print (''Duration: '' @ str_int (i div 60) @ '':''
                                         @ format_02d (i mod 60)) s1)
                       | _ \<Rightarrow>
                           Inl (Exn ''TypeError'' (''unsupported operand type(s) for //: '' @ sq
                                  @ ''str'' @ sq @ '' and '' @ sq @ ''int'' @ sq)))
                    else Inr s1) of
                Inl e \<Rightarrow> (Inl e, s1)
              | Inr s2 \<Rightarrow>
                  (let s3 = s2\<lparr>calls := calls s2 @ [Fetch u]\<rparr> in
                   case download E (ydl_opts self) u (world s3) of
                     (Inl e, w2) \<Rightarrow> (Inl e, s3\<lparr>world := w2\<rparr>)
                   | (Inr _, w2) \<Rightarrow>
                       (Inr \<lparr>url = u, title = t, status = ''success'', duration = d,
                             error = None\<rparr>,
                        s3\<lparr>world := w2\<rparr>))))"

text \<open>\<^verbatim>\<open>download_single_video\<close>: the handler turns every exception into an error
  result.\<close>

definition download_single_video ::
  "'w env \<Rightarrow> downloader \<Rightarrow> string \<Rightarrow> 'w state \<Rightarrow> download_result \<times> 'w state" where
  "download_single_video E self u s =
     (case try_download E self u s of
        (Inr r, s') \<Rightarrow> (r, s')
      | (Inl e, s') \<Rightarrow>
          (let error_msg = exn_msg e in
           (\<lparr>url = u, title = PStr ''Unknown'', status = ''error'', duration = PInt 0,
             error = Some error_msg\<rparr>,
            print (''Error downloading '' @ u @ '': '' @ error_msg) s')))"

text \<open>The \<^verbatim>\<open>for\<close> loop of \<^verbatim>\<open>download_multiple_videos\<close>: \<open>i\<close> is the counter of
  \<^verbatim>\<open>enumerate(urls, 1)\<close>, \<open>results\<close> the list appended to.\<close>

fun download_loop ::
  "'w env \<Rightarrow> downloader \<Rightarrow> nat \<Rightarrow> nat \<Rightarrow> string list \<Rightarrow> download_result list \<Rightarrow> 'w state
     \<Rightarrow> download_result list \<times> 'w state" where
  "download_loop E self tot i [] results s = (results, s)"
| "download_loop E self tot i (u # us) results s =
     (let s1 = print (''\<newline>['' @ str_nat i @ ''/'' @ str_nat tot @ ''] Processing: '' @ u) s;
          (result, s2) = download_single_video E self u s1
      in download_loop E self tot (i + 1) us (results @ [result]) s2)"

definition download_multiple_videos ::
  "'w env \<Rightarrow> downloader \<Rightarrow> string list \<Rightarrow> 'w state \<Rightarrow> download_result list \<times> 'w state" where
  "download_multiple_videos E self us s =
     (let tot = length us;
          s1 = print (''Starting download of '' @ str_nat tot @ '' videos...'') s;
          s2 = print (''Download directory: '' @ absolute E (download_path self)) s1;
          s3 = print (replicate 50 CHR ''-'') s2
      in download_loop E self tot 1 us [] s3)"

text \<open>The list comprehension of \<^verbatim>\<open>download_from_file\<close>, line by line.\<close>

fun collect_urls :: "string list \<Rightarrow> string list" where
  "collect_urls [] = []"
| "collect_urls (line # rest) =
     (if strip line \<noteq> [] \<and> \<not> startswith_hash line then strip line # collect_urls rest
      else collect_urls rest)"

definition download_from_file ::
  "'w env \<Rightarrow> downloader \<Rightarrow> string \<Rightarrow> 'w state \<Rightarrow> download_result list \<times> 'w state" where
  "download_from_file E self file_path s =
     (case read_lines E file_path (world s) of
        (Inr ls, w') \<Rightarrow> download_multiple_videos E self (collect_urls ls) (s\<lparr>world := w'\<rparr>)
      | (Inl e, w') \<Rightarrow>
          (if exn_class e = ''FileNotFoundError'' then
             ([], print (''Error: File '' @ sq @ file_path @ sq @ '' not found.'') (s\<lparr>world := w'\<rparr>))
           else
             ([], print (''Error reading file '' @ sq @ file_path @ sq @ '': '' @ exn_msg e)
                    (s\<lparr>world := w'\<rparr>))))"

section \<open>The summary\<close>

text \<open>The builtin \<^verbatim>\<open>sum\<close>: it starts from the integer 0 and adds the items from the left;
  adding \<^verbatim>\<open>None\<close> or a string to an integer raises \<^verbatim>\<open>TypeError\<close>.\<close>

fun py_sum :: "int \<Rightarrow> pyval list \<Rightarrow> exn + int" where
  "py_sum acc [] = Inr acc"
| "py_sum acc (PInt i # vs) = py_sum (acc + i) vs"
| "py_sum acc (PNone # vs) =
     Inl (Exn ''TypeError'' (''unsupported operand type(s) for +: '' @ sq @ ''int'' @ sq
            @ '' and '' @ sq @ ''NoneType'' @ sq))"
| "py_sum acc (PStr x # vs) =
     Inl (Exn ''TypeError'' (''unsupported operand type(s) for +: '' @ sq @ ''int'' @ sq
            @ '' and '' @ sq @ ''str'' @ sq))"

text \<open>The loop over the failed results.\<close>

fun print_failed :: "download_result list \<Rightarrow> 'w state \<Rightarrow> 'w state" where
  "print_failed [] s = s"
| "print_failed (result # rest) s =
     print_failed rest
       (print (''  - '' @ url result @ '': ''
                 @ (case error result of None \<Rightarrow> ''None'' | Some m \<Rightarrow> m)) s)"

text \<open>\<^verbatim>\<open>print_summary\<close>. The exception of \<^verbatim>\<open>sum\<close> is not caught: it leaves the function
  after the three counts are printed.\<close>

definition print_summary :: "download_result list \<Rightarrow> 'w state \<Rightarrow> (exn + unit) \<times> 'w state" where
  "print_summary results s =
     (let successful = filter (\<lambda>r. status r = ''success'') results;
          failed = filter (\<lambda>r. status r = ''error'') results;
          s1 = print (''\<newline>'' @ replicate 60 CHR ''='') s;
          s2 = print ''DOWNLOAD SUMMARY :3'' s1;
          s3 = print (replicate 60 CHR ''='') s2;
          s4 = print (''Total videos processed: '' @ str_nat (length results)) s3;
          s5 = print (''Successfully downloaded: '' @ str_nat (length successful)) s4;
          s6 = print (''Failed downloads: '' @ str_nat (length failed)) s5
      in case (if successful \<noteq> [] then
                 (case py_sum 0 (map duration successful) of
                    Inl e \<Rightarrow> Inl e
                  | Inr total_duration \<Rightarrow>
                      Inr (print (''Total duration: '' @ str_int (total_duration div 3600) @ ''h ''
                                    @ str_int ((total_duration mod 3600) div 60) @ ''m ''
                                    @ str_int (total_duration mod 60) @ ''s'') s6))
               else Inr s6) of
           Inl e \<Rightarrow> (Inl e, s6)
         | Inr s7 \<Rightarrow>
             (Inr (),
              if failed \<noteq> [] then print_failed failed (print ''\<newline>Failed downloads:'' s7)
              else s7))"

section \<open>The command line\<close>

text \<open>The namespace that \<^verbatim>\<open>parser.parse_args()\<close> returns.\<close>

record args =
  arg_urls :: "string list"
  arg_file :: "string option"
  arg_output :: string
  arg_audio_only :: bool
  arg_quality :: string
  arg_format :: "string option"

text \<open>The test \<^verbatim>\<open>if args.file:\<close>, which the empty string fails as \<^verbatim>\<open>None\<close> does.\<close>

definition file_given :: "args \<Rightarrow> bool" where
  "file_given a = (arg_file a \<noteq> None \<and> arg_file a \<noteq> Some [])"

text \<open>The part of \<^verbatim>\<open>main\<close> that fills \<^verbatim>\<open>results\<close>: the file first, then the URLs of the
  command line.\<close>

definition gather_results ::
  "'w env \<Rightarrow> downloader \<Rightarrow> args \<Rightarrow> 'w state \<Rightarrow> download_result list \<times> 'w state" where
  "gather_results E dl a s =
     (let (results1, s1) =
            (case arg_file a of
               Some f \<Rightarrow> (if f \<noteq> [] then download_from_file E dl f s else ([], s))
             | None \<Rightarrow> ([], s));
          (results2, s2) =
            (if arg_urls a \<noteq> [] then
               (let (r, s') = download_multiple_videos E dl (arg_urls a) s1 in (results1 @ r, s'))
             else (results1, s1))
      in (results2, s2))"

definition usage :: "string list" where
  "usage =
     [''No URLs provided. Use --help for usage information.'',
      ''\<newline>Example usage:'',
      ''  python youtube_downloader.py '' @ sq @ ''https://youtube.com/watch?v=...'' @ sq @ '' ''
        @ sq @ ''https://youtube.com/watch?v=...'' @ sq,
      ''  python youtube_downloader.py -f urls.txt'',
      ''  python youtube_downloader.py -a -q 720p '' @ sq @ ''https://youtube.com/watch?v=...''
        @ sq]"

text \<open>\<^verbatim>\<open>main\<close>, from the parsed arguments on. \<open>Inl\<close> is an exception that nothing
  catches.\<close>

definition main :: "'w env \<Rightarrow> args \<Rightarrow> 'w state \<Rightarrow> (exn + unit) \<times> 'w state" where
  "main E a s =
     (case init E (arg_output a) (arg_audio_only a) (arg_quality a) (arg_format a) (world s) of
        (Inl e, w') \<Rightarrow> (Inl e, s\<lparr>world := w'\<rparr>)
      | (Inr dl, w') \<Rightarrow>
          (let (results, s1) = gather_results E dl a (s\<lparr>world := w'\<rparr>)
           in if \<not> file_given a \<and> arg_urls a = [] then
                (Inr (), s1\<lparr>stdout := stdout s1 @ usage\<rparr>)
              else print_summary results s1))"

definition example_urls :: "string list" where
  "example_urls =
     [''https://youtu.be/9uxvKLSKpPA?si=g_RfxgG-LGlEVhE7'',
      ''https://youtu.be/NCPIBPGJTFk?si=N-KiG-EeUVIGYbYS'',
      ''https://youtu.be/gsUPN9h9Kd4?si=dU59r4Wqy2SExVvc'',
      ''https://youtu.be/Z8XSbud_OEo?si=zATy_tqmLVtVMs7N''
        @ ''https://youtu.be/9oE0ByeTF58?si=WNjQfgmco2YKnNyn'',
      ''https://youtu.be/uoor0Gvhn-s?si=8UBYad5eqkknltaE'',
      ''https://youtu.be/dT9xRd86h18?si=CdAzn8-5hbdqCFdr'',
      ''https://youtu.be/rVo3Z9MddAA?si=9Mz_PzXl1eLpWEyu'',
      ''https://youtu.be/O6z2jAs6wLc?si=93KWaMC1wrbuLkVy'',
      ''https://youtu.be/B0EIkD3yIbI?si=F7p2ZxTNXZ20O9Jk'',
      ''https://youtu.be/MqSAneZZG3c?si=G-emgMn2xYXKbaKa'']"

text \<open>
  The script: \<open>argv\<close> is \<^verbatim>\<open>sys.argv\<close> (the program name first) and \<open>a\<close> the namespace
  that the parser returns for it. With no argument after the program name \<^verbatim>\<open>main\<close> is
  not called: a downloader with the default options runs on the example list.
\<close>

definition script :: "'w env \<Rightarrow> string list \<Rightarrow> args \<Rightarrow> 'w state \<Rightarrow> (exn + unit) \<times> 'w state" where
  "script E argv a s =
     (if length argv > 1 then main E a s
      else
        (let s1 = print ''YouTube Multi-Video Downloader'' s;
             s2 = print (replicate 40 CHR ''='') s1
         in case init E ''./downloads'' False ''best'' None (world s2) of
              (Inl e, w') \<Rightarrow> (Inl e, s2\<lparr>world := w'\<rparr>)
            | (Inr dl, w') \<Rightarrow>
                (let (results, s3) = download_multiple_videos E dl example_urls (s2\<lparr>world := w'\<rparr>)
                 in print_summary results s3)))"

text \<open>The exit status of the process: 1 when an exception reaches the top level.\<close>

definition exit_status :: "exn + unit \<Rightarrow> nat" where
  "exit_status r = (case r of Inl e \<Rightarrow> 1 | Inr u \<Rightarrow> 0)"

section \<open>Notions of the specification\<close>

text \<open>The format selector of a freshly built configuration, or the exception that left
  the constructor.\<close>

definition init_format ::
  "'w env \<Rightarrow> string \<Rightarrow> bool \<Rightarrow> string \<Rightarrow> string option \<Rightarrow> 'w \<Rightarrow> exn + string" where
  "init_format E path audio_only quality format_selector w =
     (case fst (init E path audio_only quality format_selector w) of
        Inl e \<Rightarrow> Inl e
      | Inr dl \<Rightarrow> Inr (format (ydl_opts dl)))"

text \<open>A line that is empty or holds whitespace only.\<close>

definition whitespace_only :: "string \<Rightarrow> bool" where
  "whitespace_only l = list_all isspace l"

text \<open>A comment line: one that starts with \<^verbatim>\<open>#\<close>.\<close>

definition is_comment :: "string \<Rightarrow> bool" where
  "is_comment l = (take 1 l = ''#'')"

text \<open>The URLs that the file of the command line contributes to a run started in
  world \<open>w\<close>: none without a file argument, none when reading fails.\<close>

definition file_urls :: "'w env \<Rightarrow> args \<Rightarrow> 'w \<Rightarrow> string list" where
  "file_urls E a w =
     (case arg_file a of
        None \<Rightarrow> []
      | Some f \<Rightarrow>
          if f = [] then []
          else (case fst (read_lines E f w) of Inl e \<Rightarrow> [] | Inr ls \<Rightarrow> collect_urls ls))"

text \<open>The calls that were probes, as the list of their URLs.\<close>

fun probed :: "call list \<Rightarrow> string list" where
  "probed [] = []"
| "probed (Probe u # cs) = u # probed cs"
| "probed (Fetch u # cs) = probed cs"

text \<open>The world in which URL number \<open>k\<close> of a list is dispatched: the one that the
  \<open>k\<close> URLs before it leave.\<close>

definition world_before :: "'w env \<Rightarrow> downloader \<Rightarrow> string list \<Rightarrow> nat \<Rightarrow> 'w state \<Rightarrow> 'w" where
  "world_before E dl us k s = world (snd (download_multiple_videos E dl (take k us) s))"

text \<open>
  The failure that the library raises while a URL is probed or fetched in world \<open>w\<close>, if
  it raises one: the probe raises, or the probe returns metadata and the fetch raises.
  The fetch is not reached when the probe returned \<^verbatim>\<open>None\<close> or a duration that is a
  non-empty string (the program then raises by itself).
\<close>

definition collaborator_failure :: "'w env \<Rightarrow> ydl_options \<Rightarrow> string \<Rightarrow> 'w \<Rightarrow> exn option" where
  "collaborator_failure E opts u w =
     (case extract_info E opts u w of
        (Inl e, w1) \<Rightarrow> Some e
      | (Inr None, w1) \<Rightarrow> None
      | (Inr (Some info), w1) \<Rightarrow>
          (case info ''duration'' of
             Some (PStr (c # cs)) \<Rightarrow> None
           | _ \<Rightarrow> (case download E opts u w1 of (Inl e, w2) \<Rightarrow> Some e | (Inr x, w2) \<Rightarrow> None)))"

text \<open>The seconds of a duration field that holds an integer.\<close>

fun int_of :: "pyval \<Rightarrow> int" where
  "int_of (PInt i) = i"
| "int_of v = 0"

text \<open>The total-duration line of the summary: hours, minutes and seconds of a number of
  seconds.\<close>

definition duration_line :: "int \<Rightarrow> string" where
  "duration_line t =
     ''Total duration: '' @ str_int (t div 3600) @ ''h '' @ str_int ((t mod 3600) div 60) @ ''m ''
       @ str_int (t mod 60) @ ''s''"

text \<open>The line of the summary that lists one failed result.\<close>

definition failed_line :: "download_result \<Rightarrow> string" where
  "failed_line r = ''  - '' @ url r @ '': '' @ (case error r of None \<Rightarrow> ''None'' | Some m \<Rightarrow> m)"

section \<open>A sample world\<close>

text \<open>
  A world for concrete runs. Its state counts the probes made so far. The directory
  \<^verbatim>\<open>/proc/x\<close> cannot be created; \<^verbatim>\<open>urls.txt\<close> is the only file; the second probe of a
  run fails; the URL \<^verbatim>\<open>bare\<close> has metadata with no key at all.
\<close>

definition sample_lines :: "string list" where
  "sample_lines =
     [''# my list\<newline>'', ''\<newline>'', ''  first  \<newline>'', '' #second\<newline>'', ''   \<newline>'', ''third'']"

definition sample_env :: "nat env" where
  "sample_env =
     \<lparr>mkdir = (\<lambda>p w. if p = ''/proc/x'' then
                         (Inl (Exn ''FileNotFoundError''
                                 (''[Errno 2] No such file or directory: '' @ sq @ p @ sq)), w)
                      else (Inr (), w)),
      read_lines = (\<lambda>p w. if p = ''urls.txt'' then
                              (Inr sample_lines, w)
                           else
                              (Inl (Exn ''FileNotFoundError''
                                 (''[Errno 2] No such file or directory: '' @ sq @ p @ sq)), w)),
      joinpath = (\<lambda>a b. (if take 2 a = ''./'' then drop 2 a else a) @ ''/'' @ b),
      absolute = (\<lambda>a. ''/home/user/'' @ (if take 2 a = ''./'' then drop 2 a else a)),
      extract_info = (\<lambda>opts u w.
         (if w = 1 then Inl (Exn ''DownloadError'' ''ERROR: Video unavailable'')
          else if u = ''bare'' then Inr (Some Map.empty)
          else Inr (Some [''title'' \<mapsto> PStr ''Clip'', ''duration'' \<mapsto> PInt 125]), Suc w)),
      download = (\<lambda>opts u w. (Inr (), w))\<rparr>"

definition sample_state :: "nat state" where
  "sample_state = \<lparr>world = 0, stdout = [], calls = []\<rparr>"

definition sample_downloader :: downloader where
  "sample_downloader =
     \<lparr>download_path = ''./downloads'',
      ydl_opts = \<lparr>outtmpl = ''downloads/%(title)s.%(ext)s'', ignoreerrors = True,
                  no_warnings = False, extractaudio = False, audioformat = None,
                  format = ''bestvideo[ext=mp4]+bestaudio[ext=m4a]/best[ext=mp4]/best''\<rparr>\<rparr>"

definition sample_args :: args where
  "sample_args =
     \<lparr>arg_urls = [''a'', ''b''], arg_file = Some ''urls.txt'', arg_output = ''./downloads'',
      arg_audio_only = False, arg_quality = ''best'', arg_format = None\<rparr>"

text \<open>
  The sample world with other metadata: the URL \<^verbatim>\<open>live\<close> has a title and the key
  \<^verbatim>\<open>duration\<close> with the value \<^verbatim>\<open>None\<close>; every other URL has both keys with the value
  \<^verbatim>\<open>None\<close>; the second probe of a run fails.
\<close>

definition live_env :: "nat env" where
  "live_env =
     sample_env\<lparr>extract_info := (\<lambda>opts u w.
       (if w = 1 then Inl (Exn ''DownloadError'' ''ERROR: Video unavailable'')
        else if u = ''live'' then
          Inr (Some [''title'' \<mapsto> PStr ''Stream'', ''duration'' \<mapsto> PNone])
        else Inr (Some [''title'' \<mapsto> PNone, ''duration'' \<mapsto> PNone]), Suc w))\<rparr>"

text \<open>The namespace of a command line without file and without URLs.\<close>

definition default_args :: args where
  "default_args =
     \<lparr>arg_urls = [], arg_file = None, arg_output = ''./downloads'', arg_audio_only = False,
      arg_quality = ''best'', arg_format = None\<rparr>"

definition sample_results :: "download_result list" where
  "sample_results =
     [\<lparr>url = ''a'', title = PStr ''Clip'', status = ''success'', duration = PInt 125, error = None\<rparr>,
      \<lparr>url = ''b'', title = PStr ''Unknown'', status = ''error'', duration = PInt 0,
        error = Some ''ERROR: Video unavailable''\<rparr>,
      \<lparr>url = ''c'', title = PStr ''Long'', status = ''success'', duration = PInt 3600, error = None\<rparr>]"

section \<open>Properties of the configuration\<close>

lemma init_format_ok:
  assumes "fst (mkdir E path w) = Inr ()"
  shows "init_format E path ao q fs w =
           Inr (case (if fs = Some [] then None else fs) of
                  Some f \<Rightarrow> f
                | None \<Rightarrow>
                    if ao then ''bestaudio/best''
                    else if q = ''best'' then
                      ''bestvideo[ext=mp4]+bestaudio[ext=m4a]/best[ext=mp4]/best''
                    else if q = ''worst'' then ''worst[ext=mp4]/worst''
                    else ''best[height<='' @ rstrip CHR ''p'' q
                           @ ''][ext=mp4]/best[height<='' @ rstrip CHR ''p'' q @ '']'')"
  using assms
  by (cases "mkdir E path w") (simp add: init_format_def init_def split: option.splits)

lemma sample_mkdir_downloads: "fst (mkdir sample_env ''./downloads'' (0::nat)) = Inr ()"
  by (simp add: sample_env_def)

lemma sample_mkdir_out: "fst (mkdir sample_env ''out'' (5::nat)) = Inr ()"
  by (simp add: sample_env_def)

lemma rstrip_decompose: "\<exists>n. s = rstrip c s @ replicate n c"
proof -
  let ?t = "takeWhile (\<lambda>x. x = c) (rev s)"
  have "rev s = ?t @ dropWhile (\<lambda>x. x = c) (rev s)"
    by simp
  then have "s = rev (dropWhile (\<lambda>x. x = c) (rev s)) @ rev ?t"
    by (metis rev_append rev_rev_ident)
  moreover have "?t = replicate (length ?t) c"
    by (metis (mono_tags, lifting) replicate_length_same set_takeWhileD)
  ultimately show ?thesis
    unfolding rstrip_def by (metis rev_replicate)
qed

lemma rstrip_last: "rstrip c s = [] \<or> last (rstrip c s) \<noteq> c"
  unfolding rstrip_def
  by (metis (mono_tags, lifting) dropWhile_eq_Nil_conv hd_dropWhile last_rev rev_is_Nil_conv)

text \<open>
  C10. Format selection follows a strict precedence. Provided the output directory can be
  created: a non-empty custom selector becomes the format, whatever the audio flag and the
  quality string; without one, audio-only gives \<^verbatim>\<open>bestaudio/best\<close> whatever the quality
  string; without either, the format is a function of the quality string alone (two
  configurations with the same quality string get the same format).
\<close>

theorem format_precedence:
  assumes "fst (mkdir E path w) = Inr ()" and "fst (mkdir E' path' w') = Inr ()"
  shows "(\<forall>f. fs = Some f \<and> f \<noteq> [] \<longrightarrow> init_format E path ao q fs w = Inr f)
       \<and> ((fs = None \<or> fs = Some []) \<longrightarrow> init_format E path True q fs w = Inr ''bestaudio/best'')
       \<and> ((fs = None \<or> fs = Some []) \<and> (fs' = None \<or> fs' = Some []) \<longrightarrow>
            init_format E path False q fs w = init_format E' path' False q fs' w')"
  using assms
  by (auto simp: init_format_ok)

theorem format_precedence_witness:
  "init_format sample_env ''./downloads'' True ''720p'' (Some ''18'') 0 = Inr ''18''
   \<and> init_format sample_env ''./downloads'' True ''720p'' None 0 = Inr ''bestaudio/best''
   \<and> init_format sample_env ''./downloads'' False ''720p'' None 0
       = init_format sample_env ''out'' False ''720p'' (Some []) 5"
proof -
  note a = sample_mkdir_downloads and b = sample_mkdir_out
  from format_precedence [OF a b, of "Some ''18''" True "''720p''" "Some []"]
  have 1: "init_format sample_env ''./downloads'' True ''720p'' (Some ''18'') 0 = Inr ''18''"
    by simp
  from format_precedence [OF a b, of None True "''720p''" "Some []"]
  have 2: "init_format sample_env ''./downloads'' True ''720p'' None 0 = Inr ''bestaudio/best''"
    and 3: "init_format sample_env ''./downloads'' False ''720p'' None 0
       = init_format sample_env ''out'' False ''720p'' (Some []) 5"
    by simp_all
  from 1 2 3 show ?thesis by simp
qed

text \<open>
  C9. With no custom selector and audio-only off, a quality string other than \<^verbatim>\<open>best\<close>
  and \<^verbatim>\<open>worst\<close> never makes the construction raise (the directory being creatable): the
  string is split into a part \<open>h\<close> that does not end in \<^verbatim>\<open>p\<close> and a run of \<^verbatim>\<open>p\<close>, and \<open>h\<close>
  goes verbatim into the selector. So \<^verbatim>\<open>720\<close>, \<^verbatim>\<open>720p\<close> and \<^verbatim>\<open>720pp\<close> give the same selector
  for height 720, and \<^verbatim>\<open>abc\<close> gives a selector with the text \<^verbatim>\<open>height<=abc\<close>.
\<close>

theorem quality_suffix_stripped:
  assumes "fst (mkdir E path w) = Inr ()" and "fs = None \<or> fs = Some []"
  shows "(q \<noteq> ''best'' \<and> q \<noteq> ''worst'' \<longrightarrow>
            (\<exists>h n. q = h @ replicate n CHR ''p'' \<and> (h = [] \<or> last h \<noteq> CHR ''p'')
                \<and> init_format E path False q fs w
                    = Inr (''best[height<='' @ h @ ''][ext=mp4]/best[height<='' @ h @ '']'')))
       \<and> init_format E path False ''720'' fs w = Inr ''best[height<=720][ext=mp4]/best[height<=720]''
       \<and> init_format E path False ''720p'' fs w = Inr ''best[height<=720][ext=mp4]/best[height<=720]''
       \<and> init_format E path False ''720pp'' fs w = Inr ''best[height<=720][ext=mp4]/best[height<=720]''
       \<and> init_format E path False ''abc'' fs w = Inr ''best[height<=abc][ext=mp4]/best[height<=abc]''"
proof -
  have general: "\<exists>h n. q = h @ replicate n CHR ''p'' \<and> (h = [] \<or> last h \<noteq> CHR ''p'')
      \<and> init_format E path False q fs w
          = Inr (''best[height<='' @ h @ ''][ext=mp4]/best[height<='' @ h @ '']'')"
    if "q \<noteq> ''best''" and "q \<noteq> ''worst''"
  proof -
    obtain n where "q = rstrip CHR ''p'' q @ replicate n CHR ''p''"
      using rstrip_decompose by blast
    moreover have "init_format E path False q fs w
        = Inr (''best[height<='' @ rstrip CHR ''p'' q @ ''][ext=mp4]/best[height<=''
                 @ rstrip CHR ''p'' q @ '']'')"
      using assms that by (auto simp: init_format_ok)
    ultimately show ?thesis
      using rstrip_last by blast
  qed
  have "init_format E path False ''720'' fs w = Inr ''best[height<=720][ext=mp4]/best[height<=720]''"
    using assms by (auto simp: init_format_ok rstrip_def)
  moreover
  have "init_format E path False ''720p'' fs w = Inr ''best[height<=720][ext=mp4]/best[height<=720]''"
    using assms by (auto simp: init_format_ok rstrip_def)
  moreover
  have "init_format E path False ''720pp'' fs w = Inr ''best[height<=720][ext=mp4]/best[height<=720]''"
    using assms by (auto simp: init_format_ok rstrip_def)
  moreover
  have "init_format E path False ''abc'' fs w = Inr ''best[height<=abc][ext=mp4]/best[height<=abc]''"
    using assms by (auto simp: init_format_ok rstrip_def)
  ultimately show ?thesis
    using general by blast
qed

theorem quality_suffix_stripped_witness:
  "(\<exists>h n. ''1080ppp'' = h @ replicate n CHR ''p''
        \<and> init_format sample_env ''./downloads'' False ''1080ppp'' None 0
            = Inr (''best[height<='' @ h @ ''][ext=mp4]/best[height<='' @ h @ '']''))
   \<and> init_format sample_env ''./downloads'' False ''720pp'' None 0
       = Inr ''best[height<=720][ext=mp4]/best[height<=720]''"
proof -
  note t = quality_suffix_stripped [OF sample_mkdir_downloads, of None "''1080ppp''"]
  from t have "\<exists>h n. ''1080ppp'' = h @ replicate n CHR ''p'' \<and> (h = [] \<or> last h \<noteq> CHR ''p'')
      \<and> init_format sample_env ''./downloads'' False ''1080ppp'' None 0
          = Inr (''best[height<='' @ h @ ''][ext=mp4]/best[height<='' @ h @ '']'')"
    by simp
  then obtain h n where "''1080ppp'' = h @ replicate n CHR ''p''"
    and "init_format sample_env ''./downloads'' False ''1080ppp'' None 0
          = Inr (''best[height<='' @ h @ ''][ext=mp4]/best[height<='' @ h @ '']'')"
    by blast
  moreover from t have "init_format sample_env ''./downloads'' False ''720pp'' None 0
       = Inr ''best[height<=720][ext=mp4]/best[height<=720]''"
    by simp
  ultimately show ?thesis
    by blast
qed

text \<open>
  C2, as the code has it. For the quality \<^verbatim>\<open>720p\<close>, with no custom selector and audio-only
  off, the selector built encodes a height of at most 720. For the quality \<^verbatim>\<open>abc\<close> the
  construction does not fail: it returns a configuration whose selector has the text
  \<^verbatim>\<open>abc\<close> where the height belongs.
\<close>

theorem quality_720p_and_abc:
  assumes "fst (mkdir E path w) = Inr ()" and "fs = None \<or> fs = Some []"
  shows "init_format E path False ''720p'' fs w = Inr ''best[height<=720][ext=mp4]/best[height<=720]''
       \<and> init_format E path False ''abc'' fs w = Inr ''best[height<=abc][ext=mp4]/best[height<=abc]''"
  using assms by (auto simp: init_format_ok rstrip_def)

theorem quality_720p_and_abc_witness:
  "init_format sample_env ''out'' False ''720p'' (Some []) 5
     = Inr ''best[height<=720][ext=mp4]/best[height<=720]''
   \<and> init_format sample_env ''out'' False ''abc'' (Some []) 5
     = Inr ''best[height<=abc][ext=mp4]/best[height<=abc]''"
  using quality_720p_and_abc [OF sample_mkdir_out, of "Some []"]
  by simp

text \<open>The claim C2 itself fails: the quality \<^verbatim>\<open>abc\<close> raises no error.\<close>

theorem invalid_quality_counterexample:
  "fst (init sample_env ''./downloads'' False ''abc'' None 0)
     = Inr \<lparr>download_path = ''./downloads'',
            ydl_opts = \<lparr>outtmpl = ''downloads/%(title)s.%(ext)s'', ignoreerrors = True,
                        no_warnings = False, extractaudio = False, audioformat = None,
                        format = ''best[height<=abc][ext=mp4]/best[height<=abc]''\<rparr>\<rparr>"
  by (simp add: init_def sample_env_def rstrip_def)

section \<open>Properties of the URL sources and of the dispatch order\<close>

lemma strip_empty_iff: "strip l = [] \<longleftrightarrow> whitespace_only l"
proof -
  have "strip l = [] \<longleftrightarrow> (\<forall>c \<in> set (dropWhile isspace l). isspace c)"
    by (simp add: strip_def dropWhile_eq_Nil_conv)
  also have "\<dots> \<longleftrightarrow> dropWhile isspace l = []"
    by (metis dropWhile_eq_Nil_conv dropWhile_idem)
  also have "\<dots> \<longleftrightarrow> (\<forall>c \<in> set l. isspace c)"
    by (simp add: dropWhile_eq_Nil_conv)
  finally show ?thesis
    by (simp add: whitespace_only_def list_all_iff)
qed

lemma startswith_hash_iff: "startswith_hash l \<longleftrightarrow> is_comment l"
  by (cases l) (auto simp: is_comment_def)

lemma collect_urls_eq:
  "collect_urls ls = map strip (filter (\<lambda>l. \<not> whitespace_only l \<and> \<not> is_comment l) ls)"
  by (induction ls) (simp_all add: strip_empty_iff startswith_hash_iff)

lemma try_download_Inr:
  assumes "try_download E dl u s = (Inr r, s')"
  shows "url r = u \<and> status r = ''success'' \<and> error r = None"
  using assms unfolding try_download_def Let_def
  by (auto split: prod.splits sum.splits option.splits pyval.splits if_splits)

lemma download_single_video_url: "url (fst (download_single_video E dl u s)) = u"
proof (cases "try_download E dl u s")
  case (Pair x s')
  then show ?thesis
    by (cases x) (auto simp: download_single_video_def Let_def dest: try_download_Inr)
qed

lemma download_loop_urls:
  "map url (fst (download_loop E dl tot i us acc s)) = map url acc @ us"
proof (induction us arbitrary: i acc s)
  case Nil
  show ?case by simp
next
  case (Cons u us)
  obtain r s2 where step:
    "download_single_video E dl u
       (print (''\<newline>['' @ str_nat i @ ''/'' @ str_nat tot @ ''] Processing: '' @ u) s) = (r, s2)"
    by (cases "download_single_video E dl u
       (print (''\<newline>['' @ str_nat i @ ''/'' @ str_nat tot @ ''] Processing: '' @ u) s)")
  have "url r = u"
    using download_single_video_url [of E dl u] step by (metis fst_conv)
  then show ?case
    using Cons.IH [of "Suc i" "acc @ [r]" s2] step by simp
qed

lemma download_multiple_videos_urls:
  "map url (fst (download_multiple_videos E dl us s)) = us"
  by (simp add: download_multiple_videos_def Let_def download_loop_urls)

lemma download_from_file_urls:
  "map url (fst (download_from_file E dl f s))
     = (case fst (read_lines E f (world s)) of Inl e \<Rightarrow> [] | Inr ls \<Rightarrow> collect_urls ls)"
  by (auto simp: download_from_file_def download_multiple_videos_urls
           split: prod.splits sum.splits)

lemma gather_results_urls:
  "map url (fst (gather_results E dl a s)) = file_urls E a (world s) @ arg_urls a"
proof -
  obtain r1 s1 where first:
    "(case arg_file a of
        Some f \<Rightarrow> (if f \<noteq> [] then download_from_file E dl f s else ([], s))
      | None \<Rightarrow> ([], s)) = (r1, s1)"
    by (cases "(case arg_file a of
        Some f \<Rightarrow> (if f \<noteq> [] then download_from_file E dl f s else ([], s))
      | None \<Rightarrow> ([], s))")
  have r1: "map url r1 = file_urls E a (world s)"
    using first download_from_file_urls [of E dl _ s]
    by (auto simp: file_urls_def split: option.splits if_splits) (metis fst_conv)+
  obtain r2 s2 where second: "download_multiple_videos E dl (arg_urls a) s1 = (r2, s2)"
    by (cases "download_multiple_videos E dl (arg_urls a) s1")
  have r2: "map url r2 = arg_urls a"
    using download_multiple_videos_urls [of E dl "arg_urls a" s1] second by simp
  show ?thesis
    using first second r1 r2 by (simp add: gather_results_def)
qed

text \<open>
  C5. Parsing a URL list file keeps exactly the lines that are neither empty or
  whitespace-only nor start with \<^verbatim>\<open>#\<close>, in file order, each as the candidate URL that
  stripping it gives; blank lines and comment lines contribute nothing; and these URLs, in
  this order, are what a readable file hands to the dispatch loop.
\<close>

theorem url_file_parsing:
  "collect_urls ls = map strip (filter (\<lambda>l. \<not> whitespace_only l \<and> \<not> is_comment l) ls)
   \<and> collect_urls (filter (\<lambda>l. whitespace_only l \<or> is_comment l) ls) = []
   \<and> (read_lines E f (world s) = (Inr ls, w') \<longrightarrow>
        download_from_file E dl f s
          = download_multiple_videos E dl
              (map strip (filter (\<lambda>l. \<not> whitespace_only l \<and> \<not> is_comment l) ls))
              (s\<lparr>world := w'\<rparr>))"
proof -
  have "collect_urls (filter (\<lambda>l. whitespace_only l \<or> is_comment l) ls) = []"
    unfolding collect_urls_eq by (induction ls) auto
  then show ?thesis
    by (simp add: collect_urls_eq download_from_file_def)
qed

theorem url_file_parsing_witness:
  "collect_urls sample_lines = [''first'', ''#second'', ''third'']
   \<and> download_from_file sample_env sample_downloader ''urls.txt'' sample_state
       = download_multiple_videos sample_env sample_downloader [''first'', ''#second'', ''third'']
           sample_state"
proof -
  have parsed: "map strip (filter (\<lambda>l. \<not> whitespace_only l \<and> \<not> is_comment l) sample_lines)
      = [''first'', ''#second'', ''third'']"
    by (simp add: sample_lines_def whitespace_only_def is_comment_def strip_def isspace_def)
  have readable: "read_lines sample_env ''urls.txt'' (world sample_state) = (Inr sample_lines, 0)"
    by (simp add: sample_env_def sample_state_def)
  have same: "sample_state\<lparr>world := 0\<rparr> = sample_state"
    by (simp add: sample_state_def)
  from url_file_parsing [of sample_lines sample_env "''urls.txt''" sample_state 0 sample_downloader]
  show ?thesis
    using parsed readable same by simp
qed

text \<open>
  C1. One result per input URL, in input order: the results of a URL list of length \<open>n\<close>
  are \<open>n\<close> results, result \<open>i\<close> being the one of URL \<open>i\<close>; and the results that \<^verbatim>\<open>main\<close>
  gathers are those of the URLs of the file followed by those of the URLs of the command
  line.
\<close>

theorem one_result_per_url:
  "length (fst (download_multiple_videos E dl us s)) = length us
   \<and> (\<forall>i<length us. url (fst (download_multiple_videos E dl us s) ! i) = us ! i)
   \<and> map url (fst (gather_results E dl a s)) = file_urls E a (world s) @ arg_urls a"
proof -
  have "map url (fst (download_multiple_videos E dl us s)) = us"
    by (rule download_multiple_videos_urls)
  then have "length (fst (download_multiple_videos E dl us s)) = length us"
    and "\<forall>i<length us. url (fst (download_multiple_videos E dl us s) ! i) = us ! i"
    by (metis length_map, metis length_map nth_map)
  then show ?thesis
    using gather_results_urls by blast
qed

theorem one_result_per_url_witness:
  "length (fst (download_multiple_videos sample_env sample_downloader [''a'', ''b''] sample_state)) = 2
   \<and> url (fst (download_multiple_videos sample_env sample_downloader [''a'', ''b''] sample_state) ! 1)
       = ''b''
   \<and> map url (fst (gather_results sample_env sample_downloader sample_args sample_state))
       = [''first'', ''#second'', ''third'', ''a'', ''b'']"
proof -
  have files: "file_urls sample_env sample_args (world sample_state)
      = [''first'', ''#second'', ''third'']"
    by (simp add: file_urls_def sample_args_def sample_env_def sample_lines_def strip_def
        isspace_def)
  have cli: "arg_urls sample_args = [''a'', ''b'']"
    by (simp add: sample_args_def)
  from one_result_per_url [of sample_env sample_downloader "[''a'', ''b'']" sample_state sample_args]
  show ?thesis
    using files cli by simp
qed

section \<open>Properties of one download\<close>

lemma download_single_video_success:
  assumes probe: "extract_info E (ydl_opts dl) u (world s) = (Inr (Some info), w1)"
      and typed: "\<And>x. info ''duration'' = Some (PStr x) \<Longrightarrow> x = []"
      and fetch: "download E (ydl_opts dl) u w1 = (Inr (), w2)"
  shows "\<exists>s'. download_single_video E dl u s =
           (\<lparr>url = u, title = (case info ''title'' of None \<Rightarrow> PStr ''Unknown'' | Some v \<Rightarrow> v),
             status = ''success'',
             duration = (case info ''duration'' of None \<Rightarrow> PInt 0 | Some v \<Rightarrow> v),
             error = None\<rparr>, s')
         \<and> calls s' = calls s @ [Probe u, Fetch u] \<and> world s' = w2"
proof (cases "info ''duration''")
  case None
  then show ?thesis
    using probe fetch
    by (simp add: download_single_video_def try_download_def Let_def print_def)
next
  case (Some d)
  show ?thesis
  proof (cases d)
    case PNone
    then show ?thesis
      using probe fetch Some
      by (simp add: download_single_video_def try_download_def Let_def print_def)
  next
    case (PInt i)
    then show ?thesis
      using probe fetch Some
      by (simp add: download_single_video_def try_download_def Let_def print_def)
  next
    case (PStr x)
    then have "x = []" using typed Some by simp
    then show ?thesis
      using probe fetch Some PStr
      by (simp add: download_single_video_def try_download_def Let_def print_def)
  qed
qed

text \<open>
  What holds of metadata with absent keys. When the probe returns metadata and the fetch
  does not raise (a duration that is present not being a non-empty string), the result has
  status success and no error message, a title key that is absent gives the sentinel
  \<^verbatim>\<open>Unknown\<close>, a duration key that is absent gives 0, and the fetch is performed after the
  probe: the world left is the one that the fetch returns.
\<close>

lemma missing_metadata_defaults:
  assumes probe: "extract_info E (ydl_opts dl) u (world s) = (Inr (Some info), w1)"
      and typed: "\<And>x. info ''duration'' = Some (PStr x) \<Longrightarrow> x = []"
      and fetch: "download E (ydl_opts dl) u w1 = (Inr (), w2)"
  shows "status (fst (download_single_video E dl u s)) = ''success''
       \<and> error (fst (download_single_video E dl u s)) = None
       \<and> (info ''title'' = None \<longrightarrow> title (fst (download_single_video E dl u s)) = PStr ''Unknown'')
       \<and> (info ''duration'' = None \<longrightarrow> duration (fst (download_single_video E dl u s)) = PInt 0)
       \<and> calls (snd (download_single_video E dl u s)) = calls s @ [Probe u, Fetch u]
       \<and> world (snd (download_single_video E dl u s)) = w2"
  using download_single_video_success [OF assms] by auto

lemma missing_metadata_defaults_witness:
  "status (fst (download_single_video sample_env sample_downloader ''bare'' sample_state)) = ''success''
   \<and> error (fst (download_single_video sample_env sample_downloader ''bare'' sample_state)) = None
   \<and> title (fst (download_single_video sample_env sample_downloader ''bare'' sample_state))
       = PStr ''Unknown''
   \<and> duration (fst (download_single_video sample_env sample_downloader ''bare'' sample_state)) = PInt 0
   \<and> calls (snd (download_single_video sample_env sample_downloader ''bare'' sample_state))
       = [Probe ''bare'', Fetch ''bare'']
   \<and> world (snd (download_single_video sample_env sample_downloader ''bare'' sample_state)) = 1"
proof -
  have probe: "extract_info sample_env (ydl_opts sample_downloader) ''bare'' (world sample_state)
      = (Inr (Some Map.empty), 1)"
    by (simp add: sample_env_def sample_state_def)
  have typed: "\<And>x. (Map.empty :: string \<rightharpoonup> pyval) ''duration'' = Some (PStr x) \<Longrightarrow> x = []"
    by simp
  have fetch: "download sample_env (ydl_opts sample_downloader) ''bare'' 1 = (Inr (), 1)"
    by (simp add: sample_env_def)
  from missing_metadata_defaults [OF probe typed fetch]
  show ?thesis
    by (simp add: sample_state_def)
qed

text \<open>
  C8. The code breaks the claim on metadata that lacks a title and a duration by carrying
  both keys with the value \<^verbatim>\<open>None\<close>. \<^verbatim>\<open>info.get(key, default)\<close> gives the default for an
  absent key only, so nothing is defaulted: the result has status success, title
  \<^verbatim>\<open>None\<close> and duration \<^verbatim>\<open>None\<close>, where the claim has the sentinel and 0.
\<close>

theorem none_metadata_not_defaulted:
  "download_single_video live_env sample_downloader ''untitled'' sample_state
     = (\<lparr>url = ''untitled'', title = PNone, status = ''success'', duration = PNone, error = None\<rparr>,
        \<lparr>world = 1, stdout = [''Downloading: None''],
          calls = [Probe ''untitled'', Fetch ''untitled'']\<rparr>)"
  by code_simp

section \<open>Properties of the dispatch loop\<close>

lemma probed_append: "probed (xs @ ys) = probed xs @ probed ys"
  by (induction xs rule: probed.induct) auto

lemma try_download_world_only:
  assumes "world s = world t"
  shows "fst (try_download E dl u s) = fst (try_download E dl u t)
       \<and> world (snd (try_download E dl u s)) = world (snd (try_download E dl u t))"
  using assms unfolding try_download_def Let_def print_def
  by (auto split: prod.splits sum.splits option.splits pyval.splits)

lemma download_single_video_world_only:
  assumes "world s = world t"
  shows "fst (download_single_video E dl u s) = fst (download_single_video E dl u t)
       \<and> world (snd (download_single_video E dl u s)) = world (snd (download_single_video E dl u t))"
proof -
  obtain x s' where a: "try_download E dl u s = (x, s')" by (cases "try_download E dl u s")
  obtain y t' where b: "try_download E dl u t = (y, t')" by (cases "try_download E dl u t")
  have "x = y" "world s' = world t'"
    using try_download_world_only [OF assms, of E dl u] a b by simp_all
  then show ?thesis
    using a b by (auto simp: download_single_video_def Let_def print_def split: sum.splits)
qed

lemma try_download_probed:
  "probed (calls (snd (try_download E dl u s))) = probed (calls s) @ [u]"
  unfolding try_download_def Let_def print_def
  by (auto simp: probed_append split: prod.splits sum.splits option.splits pyval.splits)

lemma download_single_video_probed:
  "probed (calls (snd (download_single_video E dl u s))) = probed (calls s) @ [u]"
proof -
  obtain x s' where a: "try_download E dl u s = (x, s')" by (cases "try_download E dl u s")
  then have "probed (calls s') = probed (calls s) @ [u]"
    using try_download_probed [of E dl u s] by simp
  then show ?thesis
    using a by (cases x) (simp_all add: download_single_video_def Let_def print_def)
qed

lemma download_loop_probed:
  "probed (calls (snd (download_loop E dl tot i us acc s))) = probed (calls s) @ us"
proof (induction us arbitrary: i acc s)
  case Nil
  show ?case by simp
next
  case (Cons u us)
  let ?s1 = "print (''\<newline>['' @ str_nat i @ ''/'' @ str_nat tot @ ''] Processing: '' @ u) s"
  obtain r s2 where step: "download_single_video E dl u ?s1 = (r, s2)"
    by (cases "download_single_video E dl u ?s1")
  have "probed (calls s2) = probed (calls s) @ [u]"
    using download_single_video_probed [of E dl u ?s1] step by (simp add: print_def)
  then show ?case
    using Cons.IH [of "Suc i" "acc @ [r]" s2] step by simp
qed

lemma download_loop_world_only:
  assumes "world s = world t"
  shows "world (snd (download_loop E dl tot i us acc s))
           = world (snd (download_loop E dl tot' i' us acc' t))
       \<and> (\<exists>rs. fst (download_loop E dl tot i us acc s) = acc @ rs
               \<and> fst (download_loop E dl tot' i' us acc' t) = acc' @ rs
               \<and> length rs = length us)"
  using assms
proof (induction us arbitrary: i i' acc acc' s t)
  case Nil
  then show ?case by simp
next
  case (Cons u us)
  let ?s1 = "print (''\<newline>['' @ str_nat i @ ''/'' @ str_nat tot @ ''] Processing: '' @ u) s"
  let ?t1 = "print (''\<newline>['' @ str_nat i' @ ''/'' @ str_nat tot' @ ''] Processing: '' @ u) t"
  obtain r s2 where a: "download_single_video E dl u ?s1 = (r, s2)"
    by (cases "download_single_video E dl u ?s1")
  obtain r' t2 where b: "download_single_video E dl u ?t1 = (r', t2)"
    by (cases "download_single_video E dl u ?t1")
  have "world ?s1 = world ?t1"
    using Cons.prems by (simp add: print_def)
  then have same: "r = r'" "world s2 = world t2"
    using download_single_video_world_only [of ?s1 ?t1 E dl u] a b by simp_all
  from Cons.IH [OF same(2), of "Suc i" "acc @ [r]" "Suc i'" "acc' @ [r]"]
  obtain rs where rs: "world (snd (download_loop E dl tot (Suc i) us (acc @ [r]) s2))
           = world (snd (download_loop E dl tot' (Suc i') us (acc' @ [r]) t2))"
      "fst (download_loop E dl tot (Suc i) us (acc @ [r]) s2) = (acc @ [r]) @ rs"
      "fst (download_loop E dl tot' (Suc i') us (acc' @ [r]) t2) = (acc' @ [r]) @ rs"
      "length rs = length us"
    by blast
  have "fst (download_loop E dl tot i (u # us) acc s) = acc @ (r # rs)"
    and "fst (download_loop E dl tot' i' (u # us) acc' t) = acc' @ (r # rs)"
    and "length (r # rs) = length (u # us)"
    and "world (snd (download_loop E dl tot i (u # us) acc s))
           = world (snd (download_loop E dl tot' i' (u # us) acc' t))"
    using a b same rs by simp_all
  then show ?case
    by blast
qed

lemma download_loop_append:
  "download_loop E dl tot i (xs @ ys) acc s
     = (case download_loop E dl tot i xs acc s of
          (r, s1) \<Rightarrow> download_loop E dl tot (i + length xs) ys r s1)"
proof (induction xs arbitrary: i acc s)
  case Nil
  show ?case by simp
next
  case (Cons u xs)
  show ?case
    by (simp add: Cons.IH Let_def split: prod.splits)
qed

lemma download_loop_nth:
  assumes k: "k < length us"
      and t: "world t = world (snd (download_loop E dl tot' i' (take k us) acc' s'))"
      and s': "world s' = world s"
  shows "fst (download_loop E dl tot i us [] s) ! k = fst (download_single_video E dl (us ! k) t)"
proof -
  obtain r1 s1 where pre: "download_loop E dl tot i (take k us) [] s = (r1, s1)"
    by (cases "download_loop E dl tot i (take k us) [] s")
  from download_loop_world_only [OF s' [symmetric], of E dl tot i "take k us" "[]" tot' i' acc']
  have w1: "world s1 = world t" and len1: "length r1 = k"
    using pre t k by auto
  let ?s1 = "print (''\<newline>['' @ str_nat (i + k) @ ''/'' @ str_nat tot @ ''] Processing: '' @ us ! k) s1"
  obtain r s2 where step: "download_single_video E dl (us ! k) ?s1 = (r, s2)"
    by (cases "download_single_video E dl (us ! k) ?s1")
  have "world ?s1 = world t"
    using w1 by (simp add: print_def)
  then have r: "r = fst (download_single_video E dl (us ! k) t)"
    using download_single_video_world_only [of ?s1 t E dl "us ! k"] step by simp
  have split: "us = take k us @ us ! k # drop (Suc k) us"
    using k by (simp add: id_take_nth_drop)
  have "download_loop E dl tot i us [] s
      = download_loop E dl tot (i + k) (us ! k # drop (Suc k) us) r1 s1"
    using download_loop_append [of E dl tot i "take k us" "us ! k # drop (Suc k) us" "[]" s]
      pre k split by (simp add: min_def)
  also have "\<dots> = download_loop E dl tot (Suc (i + k)) (drop (Suc k) us) (r1 @ [r]) s2"
    using step by simp
  finally have eq: "download_loop E dl tot i us [] s
      = download_loop E dl tot (Suc (i + k)) (drop (Suc k) us) (r1 @ [r]) s2" .
  from download_loop_world_only [OF refl, of E dl tot "Suc (i + k)" "drop (Suc k) us" "r1 @ [r]" s2]
  obtain rs where "fst (download_loop E dl tot (Suc (i + k)) (drop (Suc k) us) (r1 @ [r]) s2)
      = (r1 @ [r]) @ rs"
    by blast
  then have "fst (download_loop E dl tot i us [] s) ! k = r"
    using eq len1 by (simp add: nth_append)
  then show ?thesis
    using r by simp
qed

lemma download_multiple_videos_as_loop:
  "\<exists>s3. world s3 = world s \<and> calls s3 = calls s
      \<and> download_multiple_videos E dl us s = download_loop E dl (length us) 1 us [] s3"
  unfolding download_multiple_videos_def Let_def
  by (rule exI [of _ "print (replicate 50 CHR ''-'')
        (print (''Download directory: '' @ absolute E (download_path dl))
           (print (''Starting download of '' @ str_nat (length us) @ '' videos...'') s))"])
     (simp add: print_def)

lemma download_multiple_videos_nth:
  assumes k: "k < length us"
      and t: "world t = world_before E dl us k s"
  shows "fst (download_multiple_videos E dl us s) ! k = fst (download_single_video E dl (us ! k) t)"
proof -
  obtain s3 where s3: "world s3 = world s"
      "download_multiple_videos E dl us s = download_loop E dl (length us) 1 us [] s3"
    using download_multiple_videos_as_loop by blast
  obtain s3' where s3': "world s3' = world s"
      "download_multiple_videos E dl (take k us) s
         = download_loop E dl (length (take k us)) 1 (take k us) [] s3'"
    using download_multiple_videos_as_loop by blast
  have "world t = world (snd (download_loop E dl (length (take k us)) 1 (take k us) [] s3'))"
    using t s3'(2) by (simp add: world_before_def)
  moreover have "world s3' = world s3"
    using s3(1) s3'(1) by simp
  ultimately have "fst (download_loop E dl (length us) 1 us [] s3) ! k
      = fst (download_single_video E dl (us ! k) t)"
    using k by (rule download_loop_nth [rotated])
  then show ?thesis
    using s3(2) by simp
qed

lemma download_single_video_failure:
  assumes "collaborator_failure E (ydl_opts dl) u (world s) = Some e"
  shows "fst (download_single_video E dl u s)
           = \<lparr>url = u, title = PStr ''Unknown'', status = ''error'', duration = PInt 0,
              error = Some (exn_msg e)\<rparr>"
  using assms
  unfolding collaborator_failure_def download_single_video_def try_download_def Let_def print_def
  by (auto split: prod.splits sum.splits option.splits pyval.splits list.splits if_splits)

section \<open>Properties of the summary\<close>

lemma py_sum_ints:
  "\<forall>v\<in>set vs. \<exists>i. v = PInt i \<Longrightarrow> py_sum acc vs = Inr (acc + sum_list (map int_of vs))"
  by (induction vs arbitrary: acc) auto

lemma print_failed_stdout:
  "print_failed fs s = s\<lparr>stdout := stdout s @ map failed_line fs\<rparr>"
  by (induction fs arbitrary: s) (simp_all add: print_def failed_line_def)

lemma print_summary_typed:
  assumes "\<forall>r\<in>set rs. status r = ''success'' \<longrightarrow> (\<exists>i. duration r = PInt i)"
  shows "print_summary rs s =
     (Inr (),
      s\<lparr>stdout := stdout s @
         [''\<newline>'' @ replicate 60 CHR ''='', ''DOWNLOAD SUMMARY :3'', replicate 60 CHR ''='',
          ''Total videos processed: '' @ str_nat (length rs),
          ''Successfully downloaded: '' @ str_nat (length (filter (\<lambda>r. status r = ''success'') rs)),
          ''Failed downloads: '' @ str_nat (length (filter (\<lambda>r. status r = ''error'') rs))]
         @ (if filter (\<lambda>r. status r = ''success'') rs = [] then []
            else [duration_line
                    (sum_list (map (int_of \<circ> duration) (filter (\<lambda>r. status r = ''success'') rs)))])
         @ (if filter (\<lambda>r. status r = ''error'') rs = [] then []
            else ''\<newline>Failed downloads:'' # map failed_line (filter (\<lambda>r. status r = ''error'') rs))\<rparr>)"
proof -
  have "\<forall>v\<in>set (map duration (filter (\<lambda>r. status r = ''success'') rs)). \<exists>i. v = PInt i"
    using assms by auto
  then have sum: "py_sum 0 (map duration (filter (\<lambda>r. status r = ''success'') rs))
      = Inr (sum_list (map (int_of \<circ> duration) (filter (\<lambda>r. status r = ''success'') rs)))"
    using py_sum_ints [of "map duration (filter (\<lambda>r. status r = ''success'') rs)" 0]
    by (simp add: comp_def)
  show ?thesis
    unfolding print_summary_def Let_def sum
    by (simp add: print_def print_failed_stdout duration_line_def)
qed

lemma hms: "(t::int) = (t div 3600) * 3600 + ((t mod 3600) div 60) * 60 + t mod 60
   \<and> 0 \<le> (t mod 3600) div 60 \<and> (t mod 3600) div 60 < 60 \<and> 0 \<le> t mod 60 \<and> t mod 60 < 60"
proof -
  have "(t mod 3600) mod 60 = t mod 60"
    by (simp add: mod_mod_cancel)
  then have m: "t mod 3600 = ((t mod 3600) div 60) * 60 + t mod 60"
    by (metis div_mult_mod_eq)
  have h: "t = (t div 3600) * 3600 + t mod 3600"
    by simp
  have b: "0 \<le> t mod 3600" "t mod 3600 < 3600" "0 \<le> t mod 60" "t mod 60 < 60"
    by simp_all
  have "t = (t div 3600) * 3600 + ((t mod 3600) div 60) * 60 + t mod 60"
    using m h by linarith
  moreover have "0 \<le> (t mod 3600) div 60" "(t mod 3600) div 60 < 60"
    using b by (simp_all add: pos_imp_zdiv_nonneg_iff div_less_iff_less_mult)
  ultimately show ?thesis using b by simp
qed

lemma str_nat_1: "str_nat (Suc 0) = ''1''"
  by code_simp

lemma one_failure_summary:
  assumes k: "k < length rs"
      and failed: "rs ! k = \<lparr>url = u, title = PStr ''Unknown'', status = ''error'', duration = PInt 0,
                            error = Some m\<rparr>"
      and others: "\<forall>j<length rs. j \<noteq> k \<longrightarrow>
                     status (rs ! j) = ''success'' \<and> (\<exists>i. duration (rs ! j) = PInt i)"
  shows "print_summary rs s =
     (Inr (),
      s\<lparr>stdout := stdout s @
         [''\<newline>'' @ replicate 60 CHR ''='', ''DOWNLOAD SUMMARY :3'', replicate 60 CHR ''='',
          ''Total videos processed: '' @ str_nat (length rs),
          ''Successfully downloaded: '' @ str_nat (length rs - 1),
          ''Failed downloads: 1'']
         @ (if length rs = 1 then []
            else [duration_line (sum_list (map (int_of \<circ> duration) rs))])
         @ [''\<newline>Failed downloads:'', ''  - '' @ u @ '': '' @ m]\<rparr>)"
proof -
  let ?ok = "\<lambda>r. status r = ''success''"
  let ?bad = "\<lambda>r. status r = ''error''"
  have split: "rs = take k rs @ rs ! k # drop (Suc k) rs"
    using k by (simp add: id_take_nth_drop)
  have before: "\<forall>r\<in>set (take k rs). status r = ''success'' \<and> (\<exists>i. duration r = PInt i)"
  proof
    fix r assume "r \<in> set (take k rs)"
    then obtain j where "j < k" "r = rs ! j"
      using k by (auto simp: in_set_conv_nth)
    then show "status r = ''success'' \<and> (\<exists>i. duration r = PInt i)"
      using others k by auto
  qed
  have after: "\<forall>r\<in>set (drop (Suc k) rs). status r = ''success'' \<and> (\<exists>i. duration r = PInt i)"
  proof
    fix r assume "r \<in> set (drop (Suc k) rs)"
    then obtain j where "j < length rs - Suc k" "r = rs ! (Suc k + j)"
      by (auto simp: in_set_conv_nth)
    then show "status r = ''success'' \<and> (\<exists>i. duration r = PInt i)"
      using others by auto
  qed
  have f_before: "filter ?ok (take k rs) = take k rs" "filter ?bad (take k rs) = []"
    using before by (auto simp: filter_empty_conv)
  have f_after: "filter ?ok (drop (Suc k) rs) = drop (Suc k) rs" "filter ?bad (drop (Suc k) rs) = []"
    using after by (auto simp: filter_empty_conv)
  have "filter ?ok rs = filter ?ok (take k rs) @ filter ?ok (rs ! k # drop (Suc k) rs)"
    by (metis split filter_append)
  then have ok: "filter ?ok rs = take k rs @ drop (Suc k) rs"
    using f_before f_after failed by simp
  have "filter ?bad rs = filter ?bad (take k rs) @ filter ?bad (rs ! k # drop (Suc k) rs)"
    by (metis split filter_append)
  then have bad: "filter ?bad rs = [rs ! k]"
    using f_before f_after failed by simp
  have len: "length (filter ?ok rs) = length rs - 1"
    using ok k by simp
  have empty: "filter ?ok rs = [] \<longleftrightarrow> length rs = 1"
    using len k by (metis One_nat_def Suc_pred length_0_conv length_greater_0_conv
        less_nat_zero_code diff_self_eq_0 zero_less_diff less_one linorder_neqE_nat)
  have "sum_list (map (int_of \<circ> duration) rs)
      = sum_list (map (int_of \<circ> duration) (take k rs))
        + sum_list (map (int_of \<circ> duration) (rs ! k # drop (Suc k) rs))"
    by (metis split map_append sum_list_append)
  then have total: "sum_list (map (int_of \<circ> duration) (filter ?ok rs))
      = sum_list (map (int_of \<circ> duration) rs)"
    using ok failed by simp
  have "set rs = set (take k rs @ rs ! k # drop (Suc k) rs)"
    by (metis split)
  then have "set rs = set (take k rs) \<union> {rs ! k} \<union> set (drop (Suc k) rs)"
    by simp
  then have typed: "\<forall>r\<in>set rs. status r = ''success'' \<longrightarrow> (\<exists>i. duration r = PInt i)"
    using before after failed by auto
  show ?thesis
    unfolding print_summary_typed [OF typed] ok [symmetric]
    using bad len empty total failed
    by (simp add: failed_line_def str_nat_1)
qed

text \<open>
  What holds of a failure of the library on URL \<open>k\<close>. If the library raises
  while URL \<open>k\<close> is probed or fetched, the result of URL \<open>k\<close> has status error, the
  failure's message, the default title and duration 0; the loop goes on: there is a result
  for every URL and every URL of the list is probed, in order; and if every other URL
  succeeds (with an integer duration), the summary counts all URLs, one failure and one
  success less than URLs, and lists URL \<open>k\<close> with the message as the only failure.
\<close>

lemma failure_isolated:
  assumes k: "k < length us"
      and fail: "collaborator_failure E (ydl_opts dl) (us ! k) (world_before E dl us k s) = Some e"
      and run: "download_multiple_videos E dl us s = (rs, s')"
  shows "rs ! k = \<lparr>url = us ! k, title = PStr ''Unknown'', status = ''error'', duration = PInt 0,
                   error = Some (exn_msg e)\<rparr>
       \<and> length rs = length us
       \<and> map url rs = us
       \<and> probed (calls s') = probed (calls s) @ us
       \<and> ((\<forall>j<length us. j \<noteq> k \<longrightarrow>
              status (rs ! j) = ''success'' \<and> (\<exists>i. duration (rs ! j) = PInt i)) \<longrightarrow>
           print_summary rs s' =
             (Inr (),
              s'\<lparr>stdout := stdout s' @
                 [''\<newline>'' @ replicate 60 CHR ''='', ''DOWNLOAD SUMMARY :3'', replicate 60 CHR ''='',
                  ''Total videos processed: '' @ str_nat (length us),
                  ''Successfully downloaded: '' @ str_nat (length us - 1),
                  ''Failed downloads: 1'']
                 @ (if length us = 1 then []
                    else [duration_line (sum_list (map (int_of \<circ> duration) rs))])
                 @ [''\<newline>Failed downloads:'', ''  - '' @ us ! k @ '': '' @ exn_msg e]\<rparr>))"
proof -
  define t :: "'a state" where "t = s\<lparr>world := world_before E dl us k s\<rparr>"
  have "world t = world_before E dl us k s"
    by (simp add: t_def)
  then have "rs ! k = fst (download_single_video E dl (us ! k) t)"
    and "collaborator_failure E (ydl_opts dl) (us ! k) (world t) = Some e"
    using download_multiple_videos_nth [OF k, of t E dl s] run fail by simp_all
  then have failed: "rs ! k = \<lparr>url = us ! k, title = PStr ''Unknown'', status = ''error'',
      duration = PInt 0, error = Some (exn_msg e)\<rparr>"
    using download_single_video_failure by metis
  have urls: "map url rs = us"
    using download_multiple_videos_urls [of E dl us s] run by simp
  then have len: "length rs = length us"
    by (metis length_map)
  obtain s3 where "calls s3 = calls s"
      "download_multiple_videos E dl us s = download_loop E dl (length us) 1 us [] s3"
    using download_multiple_videos_as_loop by blast
  then have probes: "probed (calls s') = probed (calls s) @ us"
    using download_loop_probed [of E dl "length us" 1 us "[]" s3] run by (metis snd_conv)
  have summary: "print_summary rs s' =
             (Inr (),
              s'\<lparr>stdout := stdout s' @
                 [''\<newline>'' @ replicate 60 CHR ''='', ''DOWNLOAD SUMMARY :3'', replicate 60 CHR ''='',
                  ''Total videos processed: '' @ str_nat (length us),
                  ''Successfully downloaded: '' @ str_nat (length us - 1),
                  ''Failed downloads: 1'']
                 @ (if length us = 1 then []
                    else [duration_line (sum_list (map (int_of \<circ> duration) rs))])
                 @ [''\<newline>Failed downloads:'', ''  - '' @ us ! k @ '': '' @ exn_msg e]\<rparr>)"
    if "\<forall>j<length us. j \<noteq> k \<longrightarrow>
              status (rs ! j) = ''success'' \<and> (\<exists>i. duration (rs ! j) = PInt i)"
    using one_failure_summary [of k rs "us ! k" "exn_msg e" s'] k failed that len by simp
  show ?thesis
    using failed len urls probes summary by blast
qed

lemma failure_isolated_witness:
  "fst (download_multiple_videos sample_env sample_downloader [''a'', ''b'', ''c''] sample_state) ! 1
     = \<lparr>url = ''b'', title = PStr ''Unknown'', status = ''error'', duration = PInt 0,
        error = Some ''ERROR: Video unavailable''\<rparr>
   \<and> probed (calls (snd (download_multiple_videos sample_env sample_downloader [''a'', ''b'', ''c'']
                          sample_state))) = [''a'', ''b'', ''c'']
   \<and> stdout (snd (print_summary
        (fst (download_multiple_videos sample_env sample_downloader [''a'', ''b'', ''c''] sample_state))
        (snd (download_multiple_videos sample_env sample_downloader [''a'', ''b'', ''c''] sample_state))))
      = stdout (snd (download_multiple_videos sample_env sample_downloader [''a'', ''b'', ''c'']
                       sample_state))
        @ [''\<newline>'' @ replicate 60 CHR ''='', ''DOWNLOAD SUMMARY :3'', replicate 60 CHR ''='',
           ''Total videos processed: 3'', ''Successfully downloaded: 2'', ''Failed downloads: 1'',
           ''Total duration: 0h 4m 10s'', ''\<newline>Failed downloads:'',
           ''  - b: ERROR: Video unavailable'']"
proof -
  let ?us = "[''a'', ''b'', ''c'']"
  let ?run = "download_multiple_videos sample_env sample_downloader ?us sample_state"
  have k: "1 < length ?us"
    by simp
  have fail: "collaborator_failure sample_env (ydl_opts sample_downloader) (?us ! 1)
      (world_before sample_env sample_downloader ?us 1 sample_state)
      = Some (Exn ''DownloadError'' ''ERROR: Video unavailable'')"
    by code_simp
  have run: "?run = (fst ?run, snd ?run)"
    by simp
  have results: "fst ?run =
     [\<lparr>url = ''a'', title = PStr ''Clip'', status = ''success'', duration = PInt 125, error = None\<rparr>,
      \<lparr>url = ''b'', title = PStr ''Unknown'', status = ''error'', duration = PInt 0,
        error = Some ''ERROR: Video unavailable''\<rparr>,
      \<lparr>url = ''c'', title = PStr ''Clip'', status = ''success'', duration = PInt 125, error = None\<rparr>]"
    by code_simp
  have others: "\<forall>j<length ?us. j \<noteq> 1 \<longrightarrow>
      status (fst ?run ! j) = ''success'' \<and> (\<exists>i. duration (fst ?run ! j) = PInt i)"
    unfolding results by (simp add: less_Suc_eq numeral_3_eq_3)
  have texts: "str_nat (Suc (Suc (Suc 0))) = ''3''" "str_nat (Suc (Suc 0)) = ''2''"
    "duration_line 250 = ''Total duration: 0h 4m 10s''"
    by code_simp+
  note t = failure_isolated [OF k fail run]
  from t have failed: "fst ?run ! 1 = \<lparr>url = ''b'', title = PStr ''Unknown'', status = ''error'',
      duration = PInt 0, error = Some ''ERROR: Video unavailable''\<rparr>"
    by simp
  from t have "probed (calls (snd ?run)) = probed (calls sample_state) @ ?us"
    by blast
  then have probes: "probed (calls (snd ?run)) = ?us"
    by (simp add: sample_state_def)
  have total: "sum_list (map (int_of \<circ> duration) (fst ?run)) = 250"
    unfolding results by simp
  from t others have "print_summary (fst ?run) (snd ?run) =
             (Inr (),
              (snd ?run)\<lparr>stdout := stdout (snd ?run) @
                 [''\<newline>'' @ replicate 60 CHR ''='', ''DOWNLOAD SUMMARY :3'', replicate 60 CHR ''='',
                  ''Total videos processed: '' @ str_nat (length ?us),
                  ''Successfully downloaded: '' @ str_nat (length ?us - 1),
                  ''Failed downloads: 1'']
                 @ (if length ?us = 1 then []
                    else [duration_line (sum_list (map (int_of \<circ> duration) (fst ?run)))])
                 @ [''\<newline>Failed downloads:'', ''  - '' @ ?us ! 1 @ '': ''
                      @ exn_msg (Exn ''DownloadError'' ''ERROR: Video unavailable'')]\<rparr>)"
    by blast
  then have summary: "stdout (snd (print_summary (fst ?run) (snd ?run)))
      = stdout (snd ?run)
        @ [''\<newline>'' @ replicate 60 CHR ''='', ''DOWNLOAD SUMMARY :3'', replicate 60 CHR ''='',
           ''Total videos processed: 3'', ''Successfully downloaded: 2'', ''Failed downloads: 1'',
           ''Total duration: 0h 4m 10s'', ''\<newline>Failed downloads:'',
           ''  - b: ERROR: Video unavailable'']"
    unfolding total by (simp add: texts)
  from failed probes summary show ?thesis
    by blast
qed

text \<open>
  C3. The code breaks the claim when another URL succeeds with the duration \<^verbatim>\<open>None\<close>. Of
  the URLs \<^verbatim>\<open>live\<close> and \<^verbatim>\<open>b\<close> the library fails on the second, and the first succeeds: its
  result has status success and the duration \<^verbatim>\<open>None\<close> of its metadata. The summary prints
  its three counts, then \<^verbatim>\<open>sum\<close> raises \<^verbatim>\<open>TypeError\<close>: the failed URL and its message are
  never listed, and the process ends with status 1.
\<close>

theorem none_duration_hides_failure:
  "collaborator_failure live_env (ydl_opts sample_downloader) ([''live'', ''b''] ! 1)
      (world_before live_env sample_downloader [''live'', ''b''] 1 sample_state)
     = Some (Exn ''DownloadError'' ''ERROR: Video unavailable'')
   \<and> fst (download_multiple_videos live_env sample_downloader [''live'', ''b''] sample_state)
     = [\<lparr>url = ''live'', title = PStr ''Stream'', status = ''success'', duration = PNone,
          error = None\<rparr>,
        \<lparr>url = ''b'', title = PStr ''Unknown'', status = ''error'', duration = PInt 0,
          error = Some ''ERROR: Video unavailable''\<rparr>]
   \<and> fst (print_summary
        (fst (download_multiple_videos live_env sample_downloader [''live'', ''b''] sample_state))
        (snd (download_multiple_videos live_env sample_downloader [''live'', ''b''] sample_state)))
     = Inl (Exn ''TypeError'' (''unsupported operand type(s) for +: '' @ sq @ ''int'' @ sq
                                 @ '' and '' @ sq @ ''NoneType'' @ sq))
   \<and> last (stdout (snd (print_summary
        (fst (download_multiple_videos live_env sample_downloader [''live'', ''b''] sample_state))
        (snd (download_multiple_videos live_env sample_downloader [''live'', ''b''] sample_state)))))
     = ''Failed downloads: 1''
   \<and> ''  - b: ERROR: Video unavailable''
       \<notin> set (stdout (snd (print_summary
        (fst (download_multiple_videos live_env sample_downloader [''live'', ''b''] sample_state))
        (snd (download_multiple_videos live_env sample_downloader [''live'', ''b''] sample_state)))))
   \<and> exit_status (fst (script live_env [''downloader.py'', ''live'', ''b'']
                         (default_args\<lparr>arg_urls := [''live'', ''b'']\<rparr>) sample_state)) = 1"
  by code_simp

text \<open>
  C4. For a result sequence whose successful results hold integer durations, the summary
  reports as total duration the sum of the durations of the results with status success,
  as \<open>H\<close> hours, \<open>M\<close> minutes and \<open>S\<close> seconds with \<open>H = T div 3600\<close>,
  \<open>M = (T mod 3600) div 60\<close> and \<open>S = T mod 60\<close> (no total is printed when nothing succeeded);
  these three numbers make up the total again.
\<close>

theorem summary_duration_total:
  assumes "\<forall>r\<in>set rs. status r = ''success'' \<longrightarrow> (\<exists>i. duration r = PInt i)"
  shows "let successful = filter (\<lambda>r. status r = ''success'') rs;
             failed = filter (\<lambda>r. status r = ''error'') rs;
             T = sum_list (map (int_of \<circ> duration) successful);
             H = T div 3600; M = (T mod 3600) div 60; S = T mod 60
         in print_summary rs s =
              (Inr (),
               s\<lparr>stdout := stdout s @
                  [''\<newline>'' @ replicate 60 CHR ''='', ''DOWNLOAD SUMMARY :3'', replicate 60 CHR ''='',
                   ''Total videos processed: '' @ str_nat (length rs),
                   ''Successfully downloaded: '' @ str_nat (length successful),
                   ''Failed downloads: '' @ str_nat (length failed)]
                  @ (if successful = [] then []
                     else [''Total duration: '' @ str_int H @ ''h '' @ str_int M @ ''m ''
                             @ str_int S @ ''s''])
                  @ (if failed = [] then [] else ''\<newline>Failed downloads:'' # map failed_line failed)\<rparr>)
            \<and> T = H * 3600 + M * 60 + S \<and> 0 \<le> M \<and> M < 60 \<and> 0 \<le> S \<and> S < 60"
  unfolding Let_def print_summary_typed [OF assms]
  using hms [of "sum_list (map (int_of \<circ> duration) (filter (\<lambda>r. status r = ''success'') rs))"]
  by (simp add: duration_line_def)

theorem summary_duration_total_witness:
  "print_summary sample_results sample_state =
     (Inr (),
      \<lparr>world = 0,
       stdout = [''\<newline>'' @ replicate 60 CHR ''='', ''DOWNLOAD SUMMARY :3'', replicate 60 CHR ''='',
                 ''Total videos processed: 3'', ''Successfully downloaded: 2'',
                 ''Failed downloads: 1'', ''Total duration: 1h 2m 5s'', ''\<newline>Failed downloads:'',
                 ''  - b: ERROR: Video unavailable''],
       calls = []\<rparr>)"
proof -
  have typed: "\<forall>r\<in>set sample_results. status r = ''success'' \<longrightarrow> (\<exists>i. duration r = PInt i)"
    by (simp add: sample_results_def)
  have texts: "str_nat (Suc (Suc (Suc 0))) = ''3''" "str_nat (Suc (Suc 0)) = ''2''"
    "str_nat (Suc 0) = ''1''" "str_int 1 = ''1''" "str_int 2 = ''2''" "str_int 5 = ''5''"
    by code_simp+
  have sums: "(3725::int) div 3600 = 1" "(3725::int) mod 3600 div 60 = 2" "(3725::int) mod 60 = 5"
    by simp_all
  from summary_duration_total [OF typed, of sample_state]
  show ?thesis
    by (simp add: Let_def sample_results_def sample_state_def failed_line_def texts sums)
qed

section \<open>Properties of the command line\<close>

text \<open>
  C6. A URL list file that cannot be read is not fatal. When the constructor succeeded and
  reading the file of the command line raises, the file contributes no result and no call
  to the library, one line reports the error, and the run goes on: the URLs of the command
  line are processed and the summary is the one of exactly their results.
\<close>

theorem missing_file_not_fatal:
  assumes "init E (arg_output a) (arg_audio_only a) (arg_quality a) (arg_format a) (world s)
             = (Inr dl, w0)"
      and "arg_file a = Some f" and "f \<noteq> []"
      and "read_lines E f w0 = (Inl e, w1)"
      and "s1 = print (if exn_class e = ''FileNotFoundError''
                       then ''Error: File '' @ sq @ f @ sq @ '' not found.''
                       else ''Error reading file '' @ sq @ f @ sq @ '': '' @ exn_msg e)
                  (s\<lparr>world := w1\<rparr>)"
      and "(if arg_urls a = [] then ([], s1)
            else download_multiple_videos E dl (arg_urls a) s1) = (rs, s2)"
  shows "download_from_file E dl f (s\<lparr>world := w0\<rparr>) = ([], s1)
       \<and> calls s1 = calls s
       \<and> main E a s = print_summary rs s2
       \<and> map url rs = arg_urls a"
proof -
  have from_file: "download_from_file E dl f (s\<lparr>world := w0\<rparr>) = ([], s1)"
    using assms(4,5) by (simp add: download_from_file_def)
  have urls: "map url rs = arg_urls a"
    using assms(6) download_multiple_videos_urls [of E dl "arg_urls a" s1]
    by (auto split: if_splits)
  have "gather_results E dl a (s\<lparr>world := w0\<rparr>) = (rs, s2)"
    using from_file assms(2,3,6) by (auto simp: gather_results_def split: if_splits prod.splits)
  then have "main E a s = print_summary rs s2"
    using assms(1,2,3) by (simp add: main_def file_given_def)
  then show ?thesis
    using from_file urls assms(5) by (simp add: print_def)
qed

theorem missing_file_not_fatal_witness:
  "download_from_file sample_env sample_downloader ''missing.txt'' sample_state
     = ([], print (''Error: File '' @ sq @ ''missing.txt'' @ sq @ '' not found.'') sample_state)
   \<and> main sample_env (sample_args\<lparr>arg_file := Some ''missing.txt''\<rparr>) sample_state
       = print_summary
           (fst (download_multiple_videos sample_env sample_downloader [''a'', ''b'']
                   (print (''Error: File '' @ sq @ ''missing.txt'' @ sq @ '' not found.'')
                      sample_state)))
           (snd (download_multiple_videos sample_env sample_downloader [''a'', ''b'']
                   (print (''Error: File '' @ sq @ ''missing.txt'' @ sq @ '' not found.'')
                      sample_state)))
   \<and> map url (fst (download_multiple_videos sample_env sample_downloader [''a'', ''b'']
                      (print (''Error: File '' @ sq @ ''missing.txt'' @ sq @ '' not found.'')
                         sample_state)))
       = [''a'', ''b'']"
proof -
  let ?a = "sample_args\<lparr>arg_file := Some ''missing.txt''\<rparr>"
  let ?e = "Exn ''FileNotFoundError''
              (''[Errno 2] No such file or directory: '' @ sq @ ''missing.txt'' @ sq)"
  let ?s1 = "print (''Error: File '' @ sq @ ''missing.txt'' @ sq @ '' not found.'') sample_state"
  let ?run = "download_multiple_videos sample_env sample_downloader [''a'', ''b''] ?s1"
  have built: "init sample_env (arg_output ?a) (arg_audio_only ?a) (arg_quality ?a) (arg_format ?a)
      (world sample_state) = (Inr sample_downloader, 0)"
    by (simp add: init_def sample_env_def sample_args_def sample_downloader_def sample_state_def)
  have named: "arg_file ?a = Some ''missing.txt''" and nonempty: "''missing.txt'' \<noteq> []"
    by simp_all
  have unreadable: "read_lines sample_env ''missing.txt'' 0 = (Inl ?e, 0)"
    by (simp add: sample_env_def)
  have reported: "?s1 = print (if exn_class ?e = ''FileNotFoundError''
                       then ''Error: File '' @ sq @ ''missing.txt'' @ sq @ '' not found.''
                       else ''Error reading file '' @ sq @ ''missing.txt'' @ sq @ '': '' @ exn_msg ?e)
                  (sample_state\<lparr>world := 0\<rparr>)"
    by (simp add: sample_state_def)
  have cli: "(if arg_urls ?a = [] then ([], ?s1)
              else download_multiple_videos sample_env sample_downloader (arg_urls ?a) ?s1)
      = (fst ?run, snd ?run)"
    by (simp add: sample_args_def)
  have same: "sample_state\<lparr>world := 0\<rparr> = sample_state" and urls: "arg_urls ?a = [''a'', ''b'']"
    by (simp_all add: sample_state_def sample_args_def)
  from missing_file_not_fatal [OF built named nonempty unreadable reported cli]
  show ?thesis
    unfolding same urls by blast
qed

text \<open>
  C7, as the code has it. An invocation with at least one argument after the program name,
  with no file (or an empty file name) and no URL, whose output directory can be created,
  prints the usage guidance and nothing else, calls the library not once and ends with
  status 0.
\<close>

theorem no_urls_prints_usage:
  assumes "length argv > 1"
      and "arg_file a = None \<or> arg_file a = Some []" and "arg_urls a = []"
      and "mkdir E (arg_output a) (world s) = (Inr (), w')"
  shows "script E argv a s = (Inr (), s\<lparr>world := w', stdout := stdout s @ usage\<rparr>)
       \<and> calls (snd (script E argv a s)) = calls s
       \<and> exit_status (fst (script E argv a s)) = 0"
  using assms
  by (auto simp: script_def main_def init_def gather_results_def file_given_def exit_status_def)

theorem no_urls_prints_usage_witness:
  "script sample_env [''downloader.py'', ''-a''] (default_args\<lparr>arg_audio_only := True\<rparr>) sample_state
     = (Inr (), sample_state\<lparr>stdout := usage\<rparr>)
   \<and> calls (snd (script sample_env [''downloader.py'', ''-a'']
                   (default_args\<lparr>arg_audio_only := True\<rparr>) sample_state)) = []
   \<and> exit_status (fst (script sample_env [''downloader.py'', ''-a'']
                         (default_args\<lparr>arg_audio_only := True\<rparr>) sample_state)) = 0"
proof -
  let ?a = "default_args\<lparr>arg_audio_only := True\<rparr>"
  have given: "length [''downloader.py'', ''-a''] > 1"
    by simp
  have nofile: "arg_file ?a = None \<or> arg_file ?a = Some []" and nourls: "arg_urls ?a = []"
    by (simp_all add: default_args_def)
  have creatable: "mkdir sample_env (arg_output ?a) (world sample_state) = (Inr (), 0)"
    by (simp add: sample_env_def default_args_def sample_state_def)
  from no_urls_prints_usage [OF given nofile nourls creatable]
  show ?thesis
    by (simp add: sample_state_def exit_status_def)
qed

text \<open>
  The claim C7 itself fails. Run with no argument at all, the script does not reach
  \<^verbatim>\<open>main\<close>: it probes the ten URLs of its example list (19 calls to the library in the
  sample world, where the second probe fails) and prints no usage guidance. And with an
  output directory that cannot be created, the exception of the constructor ends the
  process with status 1.
\<close>

theorem no_arguments_counterexample:
  "hd (calls (snd (script sample_env [''downloader.py''] default_args sample_state)))
     = Probe ''https://youtu.be/9uxvKLSKpPA?si=g_RfxgG-LGlEVhE7''
   \<and> length (calls (snd (script sample_env [''downloader.py''] default_args sample_state))) = 19
   \<and> stdout (snd (script sample_env [''downloader.py''] default_args sample_state)) ! 0
       = ''YouTube Multi-Video Downloader''
   \<and> ''No URLs provided. Use --help for usage information.''
       \<notin> set (stdout (snd (script sample_env [''downloader.py''] default_args sample_state)))
   \<and> exit_status (fst (script sample_env [''downloader.py'', ''-o'', ''/proc/x'']
                         (default_args\<lparr>arg_output := ''/proc/x''\<rparr>) sample_state)) = 1"
  by code_simp


end
